theory Spec2Isabelle
  imports Complex_Main
begin

section \<open>Numbers and rounding\<close>

text \<open>
  The scorers compute with Python numbers. They are modelled as exact reals, so a product
  such as \<open>150 * (1/10)\<close> is \<open>15\<close>. Python's \<open>round(x, 1)\<close> rounds to one decimal place,
  a tie going to the even digit.
\<close>

definition round_half_even :: "real \<Rightarrow> int" where
  "round_half_even y =
     (let f = \<lfloor>y\<rfloor>; d = y - of_int f
      in if d < 1 / 2 then f
         else if 1 / 2 < d then f + 1
         else if even f then f else f + 1)"

definition py_round1 :: "real \<Rightarrow> real" where
  "py_round1 x = of_int (round_half_even (x * 10)) / 10"

section \<open>Dictionaries of statistics and of scoring rules\<close>

text \<open>
  A projection dictionary maps a stat name to its number; a key that is absent is \<open>None\<close>.
  A rule table is the dictionary literal of the scorer's constructor, in its order.
\<close>

type_synonym proj_data = "string \<rightharpoonup> real"

definition rule :: "(string \<times> real) list \<Rightarrow> string \<Rightarrow> real" where
  "rule rs k = (case map_of rs k of Some v \<Rightarrow> v | None \<Rightarrow> 0)"

text \<open>\<open>if key in proj_data: score += f(proj_data[key])\<close>\<close>

definition add_if_present :: "proj_data \<Rightarrow> string \<Rightarrow> (real \<Rightarrow> real) \<Rightarrow> real \<Rightarrow> real" where
  "add_if_present d k f score = (case d k of None \<Rightarrow> score | Some v \<Rightarrow> score + f v)"

text \<open>\<open>proj_data.get(key, default)\<close>\<close>

definition get_default :: "proj_data \<Rightarrow> string \<Rightarrow> real \<Rightarrow> real" where
  "get_default d k dflt = (case d k of None \<Rightarrow> dflt | Some v \<Rightarrow> v)"

section \<open>FinalLeagueScorer: offensive positions\<close>

text \<open>The table \<open>scoring_rules\<close> of \<open>FinalLeagueScorer.__init__\<close> (both files hold the same one).\<close>

definition scoring_rules :: "(string \<times> real) list" where
  "scoring_rules =
    [(''completion'', 1),
     (''passing_yard'', 1 / 25),
     (''passing_td'', 4),
     (''interception'', - 2),
     (''sack'', - 1),
     (''passing_300_399_bonus'', 3),
     (''passing_400plus_bonus'', 5),
     (''passing_td_40_49_bonus'', 3),
     (''passing_td_50plus_bonus'', 5),
     (''rushing_attempt'', 2 / 10),
     (''rushing_yard'', 1 / 10),
     (''rushing_td'', 6),
     (''rushing_td_40_49_bonus'', 3),
     (''rushing_td_50plus_bonus'', 5),
     (''rushing_100_199_bonus'', 5),
     (''rushing_200plus_bonus'', 10),
     (''reception'', 1),
     (''receiving_yard'', 1 / 10),
     (''receiving_td'', 6),
     (''receiving_td_40_49_bonus'', 3),
     (''receiving_td_50plus_bonus'', 5),
     (''receiving_100_199_bonus'', 5),
     (''receiving_200plus_bonus'', 10),
     (''return_yard'', 1 / 10),
     (''return_td'', 5),
     (''fumble_recovered_td'', 6),
     (''fumble_lost'', - 2),
     (''two_point_conversion'', 2)]"

abbreviation R :: "string \<Rightarrow> real" where
  "R k \<equiv> rule scoring_rules k"

subsection \<open>fantasy\_projections.py: calculate\_projected\_score\<close>

text \<open>What one stat adds to the score once its key is present.\<close>

definition passing_yards_points :: "real \<Rightarrow> real" where
  "passing_yards_points yards =
     yards * R ''passing_yard'' +
     (if yards \<ge> 400 then R ''passing_400plus_bonus''
      else if yards \<ge> 300 then R ''passing_300_399_bonus''
      else 0)"

definition rushing_yards_points :: "real \<Rightarrow> real" where
  "rushing_yards_points yards =
     yards * R ''rushing_yard'' +
     (if yards \<ge> 100 then R ''rushing_100_199_bonus'' else 0) +
     (if yards \<ge> 200 then R ''rushing_200plus_bonus'' else 0)"

definition receiving_yards_points :: "real \<Rightarrow> real" where
  "receiving_yards_points yards =
     yards * R ''receiving_yard'' +
     (if yards \<ge> 100 then R ''receiving_100_199_bonus'' else 0) +
     (if yards \<ge> 200 then R ''receiving_200plus_bonus'' else 0)"

text \<open>The score before the final \<open>round(score, 1)\<close>.\<close>

definition projected_score_unrounded :: "proj_data \<Rightarrow> real" where
  "projected_score_unrounded d =
     (let score = 0;
          score = add_if_present d ''completions'' (\<lambda>v. v * R ''completion'') score;
          score = add_if_present d ''passing_yards'' passing_yards_points score;
          score = add_if_present d ''passing_tds'' (\<lambda>v. v * R ''passing_td'') score;
          score = add_if_present d ''interceptions'' (\<lambda>v. v * R ''interception'') score;
          score = add_if_present d ''sacks'' (\<lambda>v. v * R ''sack'') score;
          score = add_if_present d ''rushing_attempts'' (\<lambda>v. v * R ''rushing_attempt'') score;
          score = add_if_present d ''rushing_yards'' rushing_yards_points score;
          score = add_if_present d ''rushing_tds'' (\<lambda>v. v * R ''rushing_td'') score;
          score = add_if_present d ''receptions'' (\<lambda>v. v * R ''reception'') score;
          score = add_if_present d ''receiving_yards'' receiving_yards_points score;
          score = add_if_present d ''receiving_tds'' (\<lambda>v. v * R ''receiving_td'') score;
          score = add_if_present d ''fumbles_lost'' (\<lambda>v. v * R ''fumble_lost'') score
      in score)"

definition calculate_projected_score :: "proj_data \<Rightarrow> real" where
  "calculate_projected_score d = py_round1 (projected_score_unrounded d)"

subsection \<open>saquon\_scorer.py: the weekly bonuses\<close>

text \<open>
  \<open>get_weekly_yardage_bonuses\<close> and \<open>get_weekly_passing_bonuses\<close> return the bonus and
  a breakdown dictionary; the breakdown is the list of its entries in insertion order
  (the \<open>week\<close> entry, which only echoes the argument, is left out).
\<close>

definition get_weekly_yardage_bonuses :: "real \<Rightarrow> real \<Rightarrow> real \<times> (string \<times> real) list" where
  "get_weekly_yardage_bonuses rushing_yards receiving_yards =
     (let bonus = 0; breakdown = [];
          (bonus, breakdown) =
             (if rushing_yards \<ge> 100
              then (bonus + R ''rushing_100_199_bonus'',
                    breakdown @ [(''rushing_100_199'', R ''rushing_100_199_bonus'')])
              else (bonus, breakdown));
          (bonus, breakdown) =
             (if rushing_yards \<ge> 200
              then (bonus + R ''rushing_200plus_bonus'',
                    breakdown @ [(''rushing_200plus'', R ''rushing_200plus_bonus'')])
              else (bonus, breakdown));
          (bonus, breakdown) =
             (if receiving_yards \<ge> 100
              then (bonus + R ''receiving_100_199_bonus'',
                    breakdown @ [(''receiving_100_199'', R ''receiving_100_199_bonus'')])
              else (bonus, breakdown));
          (bonus, breakdown) =
             (if receiving_yards \<ge> 200
              then (bonus + R ''receiving_200plus_bonus'',
                    breakdown @ [(''receiving_200plus'', R ''receiving_200plus_bonus'')])
              else (bonus, breakdown))
      in (bonus, breakdown))"

definition get_weekly_passing_bonuses :: "real \<Rightarrow> real \<times> (string \<times> real) list" where
  "get_weekly_passing_bonuses passing_yards =
     (if passing_yards \<ge> 400
      then (R ''passing_400plus_bonus'', [(''passing_400plus'', R ''passing_400plus_bonus'')])
      else if passing_yards \<ge> 300
      then (R ''passing_300_399_bonus'', [(''passing_300_399'', R ''passing_300_399_bonus'')])
      else (0, []))"

subsection \<open>saquon\_scorer.py: per-touchdown length bonuses\<close>

text \<open>
  The columns of the play-by-play frame that the scorers read. \<open>touchdown\<close> and
  \<open>fumble_lost\<close> are the tests \<open>== 1\<close> on these columns; a name that is missing is \<open>None\<close>.
\<close>

record pbp_play =
  week :: nat
  td_player_name :: "string option"
  touchdown :: bool
  yards_gained :: real
  play_type :: string
  fumbled_1_player_name :: "string option"
  fumble_lost :: bool

text \<open>The body of the loop over the player's touchdowns: the bonus of one touchdown.\<close>

definition td_bonus :: "real \<Rightarrow> string \<Rightarrow> real" where
  "td_bonus yards ptype =
     (if ptype = ''run''
      then (if yards \<ge> 50 then R ''rushing_td_50plus_bonus''
            else if yards \<ge> 40 then R ''rushing_td_40_49_bonus''
            else 0)
      else if ptype = ''pass''
      then (if yards \<ge> 50 then R ''receiving_td_50plus_bonus''
            else if yards \<ge> 40 then R ''receiving_td_40_49_bonus''
            else 0)
      else 0)"

type_synonym td_detail = "real \<times> string \<times> real"

fun td_loop :: "pbp_play list \<Rightarrow> real \<times> td_detail list \<Rightarrow> real \<times> td_detail list" where
  "td_loop [] acc = acc"
| "td_loop (td # tds) (total_bonus, td_details) =
     (let b = td_bonus (yards_gained td) (play_type td)
      in if b > 0
         then td_loop tds (total_bonus + b, td_details @ [(yards_gained td, play_type td, b)])
         else td_loop tds (total_bonus, td_details))"

definition player_tds :: "pbp_play list \<Rightarrow> string \<Rightarrow> nat \<Rightarrow> pbp_play list" where
  "player_tds pbp_reg player wk =
     filter (\<lambda>p. td_player_name p = Some player \<and> touchdown p)
       (filter (\<lambda>p. week p = wk) pbp_reg)"

definition get_weekly_td_bonuses ::
    "pbp_play list \<Rightarrow> string \<Rightarrow> nat \<Rightarrow> real \<times> td_detail list" where
  "get_weekly_td_bonuses pbp_reg player wk =
     (let tds = player_tds pbp_reg player wk
      in if length tds = 0 then (0, []) else td_loop tds (0, []))"

subsection \<open>scoring\_final.py: the touchdown bonus of the season script\<close>

text \<open>
  \<open>td_40plus = sum(yards_gained >= 40)\<close>, \<open>td_50plus = sum(yards_gained >= 50)\<close> over Saquon
  Barkley's touchdowns, and the term \<open>(td_40plus * 3) + (td_50plus * 5)\<close> added to the score.
\<close>

definition saquon_tds :: "pbp_play list \<Rightarrow> pbp_play list" where
  "saquon_tds pbp = filter (\<lambda>p. td_player_name p = Some ''S.Barkley'' \<and> touchdown p) pbp"

definition td_40plus :: "pbp_play list \<Rightarrow> nat" where
  "td_40plus pbp = length (filter (\<lambda>p. yards_gained p \<ge> 40) (saquon_tds pbp))"

definition td_50plus :: "pbp_play list \<Rightarrow> nat" where
  "td_50plus pbp = length (filter (\<lambda>p. yards_gained p \<ge> 50) (saquon_tds pbp))"

definition scoring_final_td_bonus :: "pbp_play list \<Rightarrow> real" where
  "scoring_final_td_bonus pbp = real (td_40plus pbp) * 3 + real (td_50plus pbp) * 5"

subsection \<open>saquon\_scorer.py: calculate\_weekly\_score\<close>

text \<open>
  A row of the weekly frame: the numeric columns by name (\<open>None\<close> for a column that the
  frame lacks or a cell that is NaN, both of which the code reads as 0) and the position.
\<close>

record weekly_row =
  player_name :: string
  row_week :: nat
  position :: "string option"
  numeric :: "string \<rightharpoonup> real"

definition fillna0 :: "real option \<Rightarrow> real" where
  "fillna0 v = (case v of None \<Rightarrow> 0 | Some x \<Rightarrow> x)"

text \<open>\<open>player_week[col].fillna(0).iloc[0]\<close> on a frame with at least one row.\<close>

definition first_cell :: "weekly_row list \<Rightarrow> string \<Rightarrow> real" where
  "first_cell rows col = (case rows of [] \<Rightarrow> 0 | r # _ \<Rightarrow> fillna0 (numeric r col))"

definition get_fumbles_from_pbp :: "pbp_play list \<Rightarrow> string \<Rightarrow> nat \<Rightarrow> nat" where
  "get_fumbles_from_pbp pbp_reg player wk =
     length (filter (\<lambda>p. fumbled_1_player_name p = Some player \<and> fumble_lost p)
               (filter (\<lambda>p. week p = wk) pbp_reg))"

definition get_two_point_conversions :: "weekly_row list \<Rightarrow> real" where
  "get_two_point_conversions player_week =
     sum_list (map (\<lambda>col. sum_list (map (\<lambda>r. fillna0 (numeric r col)) player_week))
       [''passing_2pt_conversions'', ''rushing_2pt_conversions'',
        ''receiving_2pt_conversions''])"

definition total_fumbles_lost :: "weekly_row list \<Rightarrow> nat \<Rightarrow> real" where
  "total_fumbles_lost player_week fumbles_lost_pbp =
     (let total = fold (\<lambda>col total.
                      let fumbles_in_col = first_cell player_week col
                      in if fumbles_in_col > 0 then total + fumbles_in_col else total)
                    [''fumbles_lost'', ''rushing_fumbles_lost'', ''receiving_fumbles_lost'',
                     ''sack_fumbles_lost''] 0
      in if fumbles_lost_pbp > 0 \<and> total = 0 then real fumbles_lost_pbp else total)"

text \<open>\<open>if stat > 0: score += points\<close>\<close>

definition add_if_positive :: "real \<Rightarrow> real \<Rightarrow> real \<Rightarrow> real" where
  "add_if_positive stat points score = (if stat > 0 then score + points else score)"

text \<open>The score of the pair that the function returns; it is not rounded.\<close>

definition calculate_weekly_score ::
    "weekly_row list \<Rightarrow> pbp_play list \<Rightarrow> string \<Rightarrow> nat \<Rightarrow> real" where
  "calculate_weekly_score weekly_reg pbp_reg player wk =
     (let player_week = filter (\<lambda>r. player_name r = player \<and> row_week r = wk) weekly_reg
      in if length player_week = 0 then 0
      else
        let stat = first_cell player_week;
            fumbles = total_fumbles_lost player_week (get_fumbles_from_pbp pbp_reg player wk);
            two_pt = get_two_point_conversions player_week;
            score = 0;
            score = add_if_positive (stat ''completions'')
                      (stat ''completions'' * R ''completion'') score;
            score = add_if_positive (stat ''passing_yards'')
                      (stat ''passing_yards'' * R ''passing_yard'') score;
            pass_bonus = fst (get_weekly_passing_bonuses (stat ''passing_yards''));
            score = (if stat ''passing_yards'' > 0
                     then add_if_positive pass_bonus pass_bonus score else score);
            score = add_if_positive (stat ''passing_tds'')
                      (stat ''passing_tds'' * R ''passing_td'') score;
            score = add_if_positive (stat ''interceptions'')
                      (stat ''interceptions'' * R ''interception'') score;
            score = (if stat ''sacks'' > 0 \<and> position (hd player_week) = Some ''QB''
                     then score + stat ''sacks'' * R ''sack'' else score);
            score = add_if_positive (stat ''carries'')
                      (stat ''carries'' * R ''rushing_attempt'') score;
            score = add_if_positive (stat ''rushing_yards'')
                      (stat ''rushing_yards'' * R ''rushing_yard'') score;
            score = add_if_positive (stat ''rushing_tds'')
                      (stat ''rushing_tds'' * R ''rushing_td'') score;
            score = add_if_positive (stat ''receptions'')
                      (stat ''receptions'' * R ''reception'') score;
            score = add_if_positive (stat ''receiving_yards'')
                      (stat ''receiving_yards'' * R ''receiving_yard'') score;
            score = add_if_positive (stat ''receiving_tds'')
                      (stat ''receiving_tds'' * R ''receiving_td'') score;
            score = add_if_positive two_pt (two_pt * R ''two_point_conversion'') score;
            score = add_if_positive fumbles (fumbles * R ''fumble_lost'') score;
            td_b = fst (get_weekly_td_bonuses pbp_reg player wk);
            score = add_if_positive td_b td_b score;
            yardage_bonus = fst (get_weekly_yardage_bonuses (stat ''rushing_yards'')
                                   (stat ''receiving_yards''));
            score = add_if_positive yardage_bonus yardage_bonus score
        in score)"

section \<open>KickerScorer and DefenseScorer (fantasy\_projections.py)\<close>

definition kicker_scoring_rules :: "(string \<times> real) list" where
  "kicker_scoring_rules =
    [(''pat_made'', 1),
     (''fg_0_19'', 3),
     (''fg_20_29'', 3),
     (''fg_30_39'', 3),
     (''fg_40_49'', 3),
     (''fg_50plus'', 5)]"

abbreviation KR :: "string \<Rightarrow> real" where
  "KR k \<equiv> rule kicker_scoring_rules k"

definition kicker_calculate_projected_score :: "proj_data \<Rightarrow> real" where
  "kicker_calculate_projected_score d =
     (let score = 0;
          score = add_if_present d ''pat'' (\<lambda>v. v * KR ''pat_made'') score;
          score = add_if_present d ''fg_0_19'' (\<lambda>v. v * KR ''fg_0_19'') score;
          score = add_if_present d ''fg_20_29'' (\<lambda>v. v * KR ''fg_20_29'') score;
          score = add_if_present d ''fg_30_39'' (\<lambda>v. v * KR ''fg_30_39'') score;
          score = add_if_present d ''fg_40_49'' (\<lambda>v. v * KR ''fg_40_49'') score;
          score = add_if_present d ''fg_50plus'' (\<lambda>v. v * KR ''fg_50plus'') score;
          score = (if d ''fg_0_19'' = None
                   then add_if_present d ''fg'' (\<lambda>total_fg. total_fg * (32 / 10)) score
                   else score)
      in py_round1 score)"

definition defense_scoring_rules :: "(string \<times> real) list" where
  "defense_scoring_rules =
    [(''sack'', 1),
     (''interception'', 2),
     (''fumble_recovery'', 2),
     (''fumble_forced'', 1),
     (''safety'', 2),
     (''defensive_td'', 6),
     (''blocked_kick'', 2),
     (''return_td'', 6),
     (''return_yard'', 1 / 10),
     (''two_point_return'', 2)]"

abbreviation DR :: "string \<Rightarrow> real" where
  "DR k \<equiv> rule defense_scoring_rules k"

text \<open>The band dictionaries \<open>(low, high) -> points\<close>, in the order of the literal.\<close>

type_synonym band = "(real \<times> real) \<times> real"

definition points_allowed_scoring :: "band list" where
  "points_allowed_scoring =
    [((0, 0), 10),
     ((1, 6), 7),
     ((7, 13), 4),
     ((14, 20), 1),
     ((21, 27), 0),
     ((28, 34), - 1),
     ((35, 100), - 4)]"

definition yards_allowed_bonus :: "band list" where
  "yards_allowed_bonus = [((0, 99), 3)]"

text \<open>
  \<open>for (low, high), points in bands.items(): if low <= x <= high: score += points; break\<close>
\<close>

fun band_scan :: "band list \<Rightarrow> real \<Rightarrow> real \<Rightarrow> real" where
  "band_scan [] x score = score"
| "band_scan (((low, high), points) # rest) x score =
     (if low \<le> x \<and> x \<le> high then score + points else band_scan rest x score)"

definition defense_calculate_projected_score :: "proj_data \<Rightarrow> real" where
  "defense_calculate_projected_score d =
     (let score = 0;
          score = score + get_default d ''sacks'' 0 * DR ''sack'';
          score = score + get_default d ''interceptions'' 0 * DR ''interception'';
          score = score + get_default d ''fumble_recoveries'' 0 * DR ''fumble_recovery'';
          score = score + get_default d ''fumbles_forced'' 0 * DR ''fumble_forced'';
          score = score + get_default d ''safeties'' 0 * DR ''safety'';
          score = score + get_default d ''defensive_tds'' 0 * DR ''defensive_td'';
          score = score + get_default d ''blocked_kicks'' 0 * DR ''blocked_kick'';
          pa = get_default d ''points_allowed'' 20;
          score = band_scan points_allowed_scoring pa score;
          ya = get_default d ''yards_allowed'' 300;
          score = band_scan yards_allowed_bonus ya score
      in py_round1 score)"

section \<open>HistoricalPatternAnalyzer\<close>

datatype py_error = IndexError

subsection \<open>Strings: the test for a space and \<open>str.split()\<close>\<close>

text \<open>
  \<open>str.split()\<close> without arguments cuts at runs of whitespace and returns no empty piece.
  The whitespace characters of one byte are the tab, the line feed, the vertical tab, the
  form feed, the carriage return, the four separators 0x1C..0x1F and the space.
\<close>

definition is_space :: "char \<Rightarrow> bool" where
  "is_space c = (c \<in> set [CHR 0x09, CHR 0x0A, CHR 0x0B, CHR 0x0C, CHR 0x0D,
                          CHR 0x1C, CHR 0x1D, CHR 0x1E, CHR 0x1F, CHR '' ''])"

fun split_ws :: "string \<Rightarrow> string \<Rightarrow> string list" where
  "split_ws [] cur = (if cur = [] then [] else [cur])"
| "split_ws (c # cs) cur =
     (if is_space c
      then (if cur = [] then split_ws cs [] else cur # split_ws cs [])
      else split_ws cs (cur @ [c]))"

definition py_split :: "string \<Rightarrow> string list" where
  "py_split s = split_ws s []"

text \<open>
  \<open>parts = name.split(); short_name = f"{parts[0][0]}.{parts[1]}"\<close>: the first character
  of the first piece, a dot, the second piece. An index out of range raises IndexError.
\<close>

definition short_name :: "string \<Rightarrow> py_error + string" where
  "short_name name =
     (case py_split name of
        [] \<Rightarrow> Inl IndexError
      | p0 # rest \<Rightarrow>
          (case p0 of
             [] \<Rightarrow> Inl IndexError
           | c # _ \<Rightarrow>
               (case rest of
                  [] \<Rightarrow> Inl IndexError
                | p1 # _ \<Rightarrow> Inr (c # ''.'' @ p1))))"

subsection \<open>fantasy\_projections.py: the pattern tables and the expected bonuses\<close>

record td_pattern =
  pct_40_49 :: real
  pct_50_plus :: real

record fg_pattern =
  fg_pct_0_29 :: real
  fg_pct_30_39 :: real
  fg_pct_40_49 :: real
  fg_pct_50_plus :: real

text \<open>
  \<open>analyze_td_patterns\<close>: the touchdowns with a scorer's name, one table entry for each
  name with at least 3 of them. The table it writes to is the analyzer's, empty at
  construction.
\<close>

definition td_players :: "pbp_play list \<Rightarrow> pbp_play list" where
  "td_players pbp_data = filter (\<lambda>p. td_player_name p \<noteq> None) (filter touchdown pbp_data)"

definition analyze_player :: "pbp_play list \<Rightarrow> string \<Rightarrow> (string \<rightharpoonup> td_pattern) \<Rightarrow> (string \<rightharpoonup> td_pattern)" where
  "analyze_player tdp player tbl =
     (let player_td_data = filter (\<lambda>p. td_player_name p = Some player) tdp;
          total_tds = length player_td_data
      in if total_tds < 3 then tbl
         else
           let td_40_49 = length (filter (\<lambda>p. yards_gained p \<ge> 40 \<and> yards_gained p < 50)
                                    player_td_data);
               td_50_plus = length (filter (\<lambda>p. yards_gained p \<ge> 50) player_td_data)
           in tbl(player \<mapsto> \<lparr>pct_40_49 = real td_40_49 / real total_tds,
                               pct_50_plus = real td_50_plus / real total_tds\<rparr>))"

definition analyze_td_patterns :: "pbp_play list \<Rightarrow> (string \<rightharpoonup> td_pattern) \<Rightarrow> (string \<rightharpoonup> td_pattern)" where
  "analyze_td_patterns pbp_data tbl =
     (let tdp = td_players pbp_data
      in fold (analyze_player tdp) (remdups (List.map_filter td_player_name tdp)) tbl)"

definition league_average_td_bonus :: "real \<Rightarrow> real" where
  "league_average_td_bonus projected_tds =
     py_round1 (projected_tds * (5 / 100) * 3 + projected_tds * (3 / 100) * 5)"

definition get_player_td_bonus ::
    "(string \<rightharpoonup> td_pattern) \<Rightarrow> string \<Rightarrow> real \<Rightarrow> py_error + real" where
  "get_player_td_bonus td_patterns name projected_tds =
     (if CHR '' '' \<in> set name
      then (case short_name name of
              Inl e \<Rightarrow> Inl e
            | Inr sn \<Rightarrow>
                (case td_patterns sn of
                   Some pattern \<Rightarrow>
                     Inr (py_round1 (projected_tds * pct_40_49 pattern * 3 +
                                     projected_tds * pct_50_plus pattern * 5))
                 | None \<Rightarrow> Inr (league_average_td_bonus projected_tds)))
      else Inr (league_average_td_bonus projected_tds))"

definition get_kicker_points ::
    "(string \<rightharpoonup> fg_pattern) \<Rightarrow> string \<Rightarrow> real \<Rightarrow> real \<Rightarrow> py_error + real" where
  "get_kicker_points fg_patterns name projected_fgs projected_pats =
     (let pat_points = projected_pats * 1;
          dflt = Inr (py_round1 (pat_points + projected_fgs * (33 / 10)))
      in if CHR '' '' \<in> set name
         then (case short_name name of
                 Inl e \<Rightarrow> Inl e
               | Inr sn \<Rightarrow>
                   (case fg_patterns sn of
                      Some pattern \<Rightarrow>
                        Inr (py_round1 (pat_points +
                               (projected_fgs * (fg_pct_0_29 pattern + fg_pct_30_39 pattern +
                                                 fg_pct_40_49 pattern) * 3 +
                                projected_fgs * fg_pct_50_plus pattern * 5)))
                    | None \<Rightarrow> dflt))
         else dflt)"

subsection \<open>td\_pattern\_analyzer.py: the expected bonuses of the stand-alone analyzer\<close>

text \<open>
  Of a kicker's entry these functions read the five fractions only. The dictionary
  \<open>distribution\<close> has one number for each of the same five bands, so it is a value of the
  same record.
\<close>

record fg_bands =
  pct_0_19 :: real
  pct_20_29 :: real
  pct_30_39 :: real
  band_pct_40_49 :: real
  band_pct_50_plus :: real

definition get_player_td_bonus_expectation ::
    "(string \<rightharpoonup> td_pattern) \<Rightarrow> string \<Rightarrow> real \<Rightarrow> real" where
  "get_player_td_bonus_expectation td_patterns name projected_tds =
     (let (avg_40_49, avg_50_plus) =
            (case td_patterns name of
               None \<Rightarrow> (5 / 100, 3 / 100)
             | Some pattern \<Rightarrow> (pct_40_49 pattern, pct_50_plus pattern));
          expected_40_49_tds = projected_tds * avg_40_49;
          expected_50_plus_tds = projected_tds * avg_50_plus;
          bonus_points = expected_40_49_tds * 3 + expected_50_plus_tds * 5
      in py_round1 bonus_points)"

definition fg_distribution :: "(string \<rightharpoonup> fg_bands) \<Rightarrow> string \<Rightarrow> real \<Rightarrow> fg_bands" where
  "fg_distribution fg_patterns name projected_fgs =
     (case fg_patterns name of
        None \<Rightarrow> \<lparr>pct_0_19 = projected_fgs * (5 / 100),
                 pct_20_29 = projected_fgs * (20 / 100),
                 pct_30_39 = projected_fgs * (35 / 100),
                 band_pct_40_49 = projected_fgs * (30 / 100),
                 band_pct_50_plus = projected_fgs * (10 / 100)\<rparr>
      | Some pattern \<Rightarrow>
               \<lparr>pct_0_19 = projected_fgs * pct_0_19 pattern,
                 pct_20_29 = projected_fgs * pct_20_29 pattern,
                 pct_30_39 = projected_fgs * pct_30_39 pattern,
                 band_pct_40_49 = projected_fgs * band_pct_40_49 pattern,
                 band_pct_50_plus = projected_fgs * band_pct_50_plus pattern\<rparr>)"

definition get_kicker_fg_distribution :: "(string \<rightharpoonup> fg_bands) \<Rightarrow> string \<Rightarrow> real \<Rightarrow> real" where
  "get_kicker_fg_distribution fg_patterns name projected_fgs =
     (let distribution = fg_distribution fg_patterns name projected_fgs;
          points = (pct_0_19 distribution + pct_20_29 distribution +
                    pct_30_39 distribution + band_pct_40_49 distribution) * 3 +
                   band_pct_50_plus distribution * 5
      in py_round1 points)"

section \<open>DefenseReturnAnalyzer and the defense step of get\_week\_projections\<close>

record return_analyzer =
  return_yards_allowed :: "string \<rightharpoonup> real"
  league_avg :: real

text \<open>
  The constructor sets \<open>league_avg = 62.5\<close> and nothing assigns it again; \<open>load_data\<close>
  fills \<open>return_yards_allowed\<close> from the season's plays, here the argument.
\<close>

definition loaded_return_analyzer :: "(string \<rightharpoonup> real) \<Rightarrow> return_analyzer" where
  "loaded_return_analyzer allowed = \<lparr>return_yards_allowed = allowed, league_avg = 625 / 10\<rparr>"

definition get_expected_return_yards :: "return_analyzer \<Rightarrow> string \<Rightarrow> real" where
  "get_expected_return_yards ra opponent_team =
     (case return_yards_allowed ra opponent_team of
        Some y \<Rightarrow> y
      | None \<Rightarrow> league_avg ra)"

text \<open>
  The body of the loop over the defense projections: the three entries written into the
  projection, \<open>projected_points\<close>, \<open>expected_return_yards\<close> and \<open>return_points\<close>.
\<close>

record dst_projection =
  projected_points :: real
  expected_return_yards :: real
  return_points :: real

definition project_defense :: "return_analyzer \<Rightarrow> proj_data \<Rightarrow> dst_projection" where
  "project_defense ra proj =
     (let base_points = defense_calculate_projected_score proj;
          ery = league_avg ra;
          rp = py_round1 (ery / 10)
      in \<lparr>projected_points = py_round1 (base_points + rp),
          expected_return_yards = ery,
          return_points = rp\<rparr>)"

section \<open>AccuracyTracker.calculate\_confidence\_intervals\<close>









section \<open>The spec's formulations and the example inputs\<close>

text \<open>
  From the spec's words: rushing at or above 100 adds the tier-1 bonus, rushing at or above
  200 adds the tier-1 and the tier-2 bonus; the same for receiving.
\<close>

definition spec_cumulative_bonus :: "real \<Rightarrow> real" where
  "spec_cumulative_bonus yards = (if yards \<ge> 200 then 5 + 10 else if yards \<ge> 100 then 5 else 0)"

text \<open>A value lies in a band when it is between its two bounds, both included.\<close>

definition in_band :: "real \<Rightarrow> band \<Rightarrow> bool" where
  "in_band x b = (fst (fst b) \<le> x \<and> x \<le> snd (fst b))"

text \<open>A touchdown of S.Barkley in week 3, of a given length and play type.\<close>

definition saquon_td :: "real \<Rightarrow> string \<Rightarrow> pbp_play" where
  "saquon_td yards ptype =
     \<lparr>week = 3, td_player_name = Some ''S.Barkley'', touchdown = True, yards_gained = yards,
      play_type = ptype, fumbled_1_player_name = None, fumble_lost = False\<rparr>"

text \<open>The stat record of the end-to-end example, as a row of the weekly frame.\<close>

definition example_row :: weekly_row where
  "example_row =
     \<lparr>player_name = ''S.Barkley'', row_week = 3, position = Some ''RB'',
      numeric = [''carries'' \<mapsto> 20, ''rushing_yards'' \<mapsto> 150, ''rushing_tds'' \<mapsto> 1,
                 ''receptions'' \<mapsto> 5, ''receiving_yards'' \<mapsto> 50, ''receiving_tds'' \<mapsto> 0,
                 ''fumbles_lost'' \<mapsto> 0]\<rparr>"

text \<open>The defense record of the end-to-end example.\<close>

definition example_defense :: proj_data where
  "example_defense =
     [''sacks'' \<mapsto> 3, ''interceptions'' \<mapsto> 1, ''points_allowed'' \<mapsto> 17,
      ''yards_allowed'' \<mapsto> 250]"

text \<open>A touchdown table that holds the short form of a name as a key.\<close>

definition example_td_patterns :: "string \<rightharpoonup> td_pattern" where
  "example_td_patterns = [''S.Barkley'' \<mapsto> \<lparr>pct_40_49 = 1 / 2, pct_50_plus = 1 / 2\<rparr>]"

text \<open>A field-goal table that holds a one-word name as a key.\<close>

definition example_fg_patterns :: "string \<rightharpoonup> fg_pattern" where
  "example_fg_patterns =
     [''Philadelphia'' \<mapsto> \<lparr>fg_pct_0_29 = 0, fg_pct_30_39 = 0, fg_pct_40_49 = 0,
                              fg_pct_50_plus = 1\<rparr>]"

text \<open>A return analyzer whose data hold 80 return yards allowed a game by DET.\<close>

definition example_return_analyzer :: return_analyzer where
  "example_return_analyzer = loaded_return_analyzer [''DET'' \<mapsto> 80]"



section \<open>Evaluating the rule table\<close>

lemma R_simps:
  "R ''completion'' = 1"
  "R ''passing_yard'' = 1 / 25"
  "R ''passing_td'' = 4"
  "R ''interception'' = - 2"
  "R ''sack'' = - 1"
  "R ''passing_300_399_bonus'' = 3"
  "R ''passing_400plus_bonus'' = 5"
  "R ''rushing_attempt'' = 2 / 10"
  "R ''rushing_yard'' = 1 / 10"
  "R ''rushing_td'' = 6"
  "R ''rushing_td_40_49_bonus'' = 3"
  "R ''rushing_td_50plus_bonus'' = 5"
  "R ''rushing_100_199_bonus'' = 5"
  "R ''rushing_200plus_bonus'' = 10"
  "R ''reception'' = 1"
  "R ''receiving_yard'' = 1 / 10"
  "R ''receiving_td'' = 6"
  "R ''receiving_td_40_49_bonus'' = 3"
  "R ''receiving_td_50plus_bonus'' = 5"
  "R ''receiving_100_199_bonus'' = 5"
  "R ''receiving_200plus_bonus'' = 10"
  "R ''fumble_lost'' = - 2"
  "R ''two_point_conversion'' = 2"
  by (simp_all add: rule_def scoring_rules_def)

lemma DR_simps:
  "DR ''sack'' = 1"
  "DR ''interception'' = 2"
  "DR ''fumble_recovery'' = 2"
  "DR ''fumble_forced'' = 1"
  "DR ''safety'' = 2"
  "DR ''defensive_td'' = 6"
  "DR ''blocked_kick'' = 2"
  by (simp_all add: rule_def defense_scoring_rules_def)

section \<open>Yardage bonuses\<close>

lemma add_if_present_upd_same: "add_if_present (d(k \<mapsto> v)) k f s = s + f v"
  by (simp add: add_if_present_def)

lemma add_if_present_del_same: "add_if_present (d(k := None)) k f s = s"
  by (simp add: add_if_present_def)

lemma add_if_present_other:
  "k' \<noteq> k \<Longrightarrow> add_if_present (d(k := x)) k' f s = add_if_present d k' f s"
  by (simp add: add_if_present_def)

lemma add_if_present_shift: "add_if_present d k f (s + c) = add_if_present d k f s + c"
  by (simp add: add_if_present_def split: option.splits)

lemmas add_if_present_simps =
  add_if_present_upd_same add_if_present_del_same add_if_present_other add_if_present_shift

text \<open>A yardage entry adds its points to whatever the rest of the record scores.\<close>

lemma rushing_split:
  "projected_score_unrounded (d(''rushing_yards'' \<mapsto> y)) =
   projected_score_unrounded (d(''rushing_yards'' := None)) + rushing_yards_points y"
  unfolding projected_score_unrounded_def Let_def
  by (simp add: add_if_present_simps)

lemma receiving_split:
  "projected_score_unrounded (d(''receiving_yards'' \<mapsto> y)) =
   projected_score_unrounded (d(''receiving_yards'' := None)) + receiving_yards_points y"
  unfolding projected_score_unrounded_def Let_def
  by (simp add: add_if_present_simps)

lemma passing_split:
  "projected_score_unrounded (d(''passing_yards'' \<mapsto> y)) =
   projected_score_unrounded (d(''passing_yards'' := None)) + passing_yards_points y"
  unfolding projected_score_unrounded_def Let_def
  by (simp add: add_if_present_simps)

lemma rushing_points_eq: "rushing_yards_points y = y * (1 / 10) + spec_cumulative_bonus y"
  by (simp add: rushing_yards_points_def spec_cumulative_bonus_def R_simps)

lemma receiving_points_eq: "receiving_yards_points y = y * (1 / 10) + spec_cumulative_bonus y"
  by (simp add: receiving_yards_points_def spec_cumulative_bonus_def R_simps)

lemma weekly_yardage_bonus_eq:
  "fst (get_weekly_yardage_bonuses r c) = spec_cumulative_bonus r + spec_cumulative_bonus c"
  by (simp add: get_weekly_yardage_bonuses_def spec_cumulative_bonus_def R_simps Let_def)

text \<open>
  C1. The rushing and receiving yardage bonuses are cumulative. In the weekly scorer the
  bonus is the sum of the cumulative bonus of the rushing yards and that of the receiving
  yards, each independent of the other; in the projection scorer a rushing (receiving)
  entry of \<open>y\<close> yards adds the linear points \<open>y / 10\<close> and the cumulative bonus on top of the
  score of the rest of the record. The cumulative bonus of 250 yards is 5 + 10 = 15 and that
  of 150 yards is 5.
\<close>

theorem yardage_bonuses_cumulative:
  "fst (get_weekly_yardage_bonuses r c) = spec_cumulative_bonus r + spec_cumulative_bonus c
   \<and> projected_score_unrounded (d(''rushing_yards'' \<mapsto> y)) =
       projected_score_unrounded (d(''rushing_yards'' := None))
         + y * (1 / 10) + spec_cumulative_bonus y
   \<and> projected_score_unrounded (d(''receiving_yards'' \<mapsto> y)) =
       projected_score_unrounded (d(''receiving_yards'' := None))
         + y * (1 / 10) + spec_cumulative_bonus y
   \<and> spec_cumulative_bonus 250 = 5 + 10
   \<and> spec_cumulative_bonus 150 = 5"
proof -
  have "spec_cumulative_bonus 250 = 5 + 10" "spec_cumulative_bonus 150 = 5"
    by (simp_all add: spec_cumulative_bonus_def)
  then show ?thesis
    by (simp add: weekly_yardage_bonus_eq rushing_split receiving_split
          rushing_points_eq receiving_points_eq)
qed

lemma weekly_passing_bonus_values:
  "fst (get_weekly_passing_bonuses 350) = 3"
  "fst (get_weekly_passing_bonuses 420) = 5"
  "fst (get_weekly_passing_bonuses y) \<in> {0, 3, 5}"
  by (simp_all add: get_weekly_passing_bonuses_def R_simps)

lemma passing_points_eq:
  "passing_yards_points y = y * (1 / 25) + fst (get_weekly_passing_bonuses y)"
  by (simp add: get_weekly_passing_bonuses_def passing_yards_points_def R_simps)

text \<open>
  C2. The passing yardage bonus is not cumulative: 350 yards receive the 300 to 399
  bonus of 3 only, 420 yards the 400+ bonus of 5 only, and the bonus of any number of yards
  is 0, 3 or 5, never the sum of both. The projection scorer adds the same bonus to the
  linear points \<open>y / 25\<close> of a passing entry.
\<close>

theorem passing_bonus_not_cumulative:
  "fst (get_weekly_passing_bonuses 350) = 3
   \<and> fst (get_weekly_passing_bonuses 420) = 5
   \<and> fst (get_weekly_passing_bonuses y) \<in> {0, 3, 5}
   \<and> fst (get_weekly_passing_bonuses y) < 3 + 5
   \<and> projected_score_unrounded (d(''passing_yards'' \<mapsto> y)) =
       projected_score_unrounded (d(''passing_yards'' := None))
         + y * (1 / 25) + fst (get_weekly_passing_bonuses y)"
proof -
  have "fst (get_weekly_passing_bonuses y) < 3 + 5"
    using weekly_passing_bonus_values(3) [of y] by auto
  then show ?thesis
    using weekly_passing_bonus_values(3) [of y]
    by (simp add: weekly_passing_bonus_values(1,2) passing_split passing_points_eq)
qed

section \<open>Per-touchdown length bonuses\<close>

lemma td_bonus_nonneg: "0 \<le> td_bonus yards ptype"
  by (simp add: td_bonus_def R_simps)

text \<open>The weekly scorer sums the bonus of each touchdown, one band for each.\<close>

lemma td_loop_total:
  "fst (td_loop tds (t, ds)) =
   t + sum_list (map (\<lambda>p. td_bonus (yards_gained p) (play_type p)) tds)"
proof (induction tds arbitrary: t ds)
  case Nil
  show ?case by simp
next
  case (Cons a tds)
  show ?case
    using Cons [of "t + td_bonus (yards_gained a) (play_type a)"] Cons [of t]
      td_bonus_nonneg [of "yards_gained a" "play_type a"]
    by (auto simp: Let_def)
qed

lemma weekly_td_bonuses_total:
  "fst (get_weekly_td_bonuses pbp_reg player wk) =
   sum_list (map (\<lambda>p. td_bonus (yards_gained p) (play_type p)) (player_tds pbp_reg player wk))"
  by (simp add: get_weekly_td_bonuses_def Let_def td_loop_total)

lemma td_bonus_run_pass:
  "ptype = ''run'' \<or> ptype = ''pass'' \<Longrightarrow>
   td_bonus yards ptype = (if yards \<ge> 50 then 5 else if yards \<ge> 40 then 3 else 0)"
  by (auto simp: td_bonus_def R_simps)

lemma weekly_td_bonus_45_55:
  "fst (get_weekly_td_bonuses [saquon_td 45 ''run'', saquon_td 55 ''run''] ''S.Barkley'' 3) = 3 + 5"
  by (simp add: get_weekly_td_bonuses_def player_tds_def saquon_td_def td_bonus_def R_simps)

text \<open>
  C3. The season script scoring\_final.py counts a touchdown of 50 yards or more in both of
  its counters, \<open>td_40plus\<close> and \<open>td_50plus\<close>: for the two touchdowns of 45 and 55 yards it adds
  3 + 3 + 5 = 11 bonus points, where the weekly scorer adds 3 + 5 = 8.
\<close>

theorem scoring_final_td_bonus_45_55:
  "scoring_final_td_bonus [saquon_td 45 ''run'', saquon_td 55 ''run''] = 3 + 3 + 5"
  by (simp add: scoring_final_td_bonus_def td_40plus_def td_50plus_def saquon_tds_def
        saquon_td_def)

section \<open>The end-to-end examples\<close>

lemma example_td_bonus:
  "fst (get_weekly_td_bonuses [saquon_td 10 ''run''] ''S.Barkley'' 3) = 0"
  by (simp add: get_weekly_td_bonuses_def player_tds_def saquon_td_def td_bonus_def)

lemma example_fumbles: "get_fumbles_from_pbp [saquon_td 10 ''run''] ''S.Barkley'' 3 = 0"
  by (simp add: get_fumbles_from_pbp_def saquon_td_def)

lemma example_first_cell: "first_cell [example_row] k = fillna0 (numeric example_row k)"
  by (simp add: first_cell_def)

lemma example_row_cells:
  "fillna0 (numeric example_row ''carries'') = 20"
  "fillna0 (numeric example_row ''rushing_yards'') = 150"
  "fillna0 (numeric example_row ''rushing_tds'') = 1"
  "fillna0 (numeric example_row ''receptions'') = 5"
  "fillna0 (numeric example_row ''receiving_yards'') = 50"
  "fillna0 (numeric example_row ''receiving_tds'') = 0"
  "fillna0 (numeric example_row ''fumbles_lost'') = 0"
  "fillna0 (numeric example_row ''completions'') = 0"
  "fillna0 (numeric example_row ''passing_yards'') = 0"
  "fillna0 (numeric example_row ''passing_tds'') = 0"
  "fillna0 (numeric example_row ''interceptions'') = 0"
  "fillna0 (numeric example_row ''sacks'') = 0"
  "fillna0 (numeric example_row ''rushing_fumbles_lost'') = 0"
  "fillna0 (numeric example_row ''receiving_fumbles_lost'') = 0"
  "fillna0 (numeric example_row ''sack_fumbles_lost'') = 0"
  "fillna0 (numeric example_row ''passing_2pt_conversions'') = 0"
  "fillna0 (numeric example_row ''rushing_2pt_conversions'') = 0"
  "fillna0 (numeric example_row ''receiving_2pt_conversions'') = 0"
  by (simp_all add: example_row_def fillna0_def)

lemma example_row_key: "player_name example_row = ''S.Barkley''" "row_week example_row = 3"
  by (simp_all add: example_row_def)

lemma example_weekly_score:
  "calculate_weekly_score [example_row] [saquon_td 10 ''run''] ''S.Barkley'' 3 = 40"
  unfolding calculate_weekly_score_def Let_def
  by (simp add: example_row_key example_first_cell example_row_cells example_td_bonus
        add_if_positive_def R_simps get_weekly_passing_bonuses_def
        get_weekly_yardage_bonuses_def total_fumbles_lost_def get_two_point_conversions_def
        example_fumbles)

text \<open>
  The projection scorer reads the key \<open>rushing_attempts\<close>: with it the same numbers score
  40 there too, and an entry \<open>carries\<close> is a key it does not read.
\<close>

lemma example_projected_score:
  "calculate_projected_score
     [''rushing_attempts'' \<mapsto> 20, ''rushing_yards'' \<mapsto> 150, ''rushing_tds'' \<mapsto> 1,
      ''receptions'' \<mapsto> 5, ''receiving_yards'' \<mapsto> 50, ''receiving_tds'' \<mapsto> 0,
      ''fumbles_lost'' \<mapsto> 0] = 40"
  by (simp add: calculate_projected_score_def projected_score_unrounded_def add_if_present_def
        rushing_yards_points_def receiving_yards_points_def R_simps py_round1_def
        round_half_even_def)

lemma example_projected_score_carries:
  "calculate_projected_score
     [''carries'' \<mapsto> 20, ''rushing_yards'' \<mapsto> 150, ''rushing_tds'' \<mapsto> 1,
      ''receptions'' \<mapsto> 5, ''receiving_yards'' \<mapsto> 50, ''receiving_tds'' \<mapsto> 0,
      ''fumbles_lost'' \<mapsto> 0] = 36"
  by (simp add: calculate_projected_score_def projected_score_unrounded_def add_if_present_def
        rushing_yards_points_def receiving_yards_points_def R_simps py_round1_def
        round_half_even_def)

text \<open>
  C4. For the record with 20 carries, 150 rushing yards, 1 rushing touchdown, 5 receptions,
  50 receiving yards, no receiving touchdown and no fumble lost, and one touchdown of 10
  yards, the weekly score is 20 * 0.2 + 150 * 0.1 + 1 * 6 + 5 * 1 + 50 * 0.1 + 5 = 40, and
  the touchdown adds no length bonus.
\<close>

theorem end_to_end_offense:
  "calculate_weekly_score [example_row] [saquon_td 10 ''run''] ''S.Barkley'' 3
     = 20 * (2 / 10) + 150 * (1 / 10) + 1 * 6 + 5 * 1 + 50 * (1 / 10) + 5
   \<and> calculate_weekly_score [example_row] [saquon_td 10 ''run''] ''S.Barkley'' 3 = 40
   \<and> fst (get_weekly_td_bonuses [saquon_td 10 ''run''] ''S.Barkley'' 3) = 0"
  by (simp add: example_weekly_score example_td_bonus)

text \<open>The scan of a band table adds the points of the first band that holds the value.\<close>

lemma band_scan_find:
  "band_scan bs x s = s + (case find (in_band x) bs of None \<Rightarrow> 0 | Some b \<Rightarrow> snd b)"
  by (induction bs x s rule: band_scan.induct) (simp_all add: in_band_def)

lemma points_allowed_one_band: "length (filter (in_band x) points_allowed_scoring) \<le> 1"
  by (simp add: points_allowed_scoring_def in_band_def)

lemma yards_allowed_one_band: "length (filter (in_band x) yards_allowed_bonus) \<le> 1"
  by (simp add: yards_allowed_bonus_def in_band_def)

lemma example_defense_score: "defense_calculate_projected_score example_defense = 6"
  by (simp add: defense_calculate_projected_score_def example_defense_def get_default_def
        DR_simps points_allowed_scoring_def yards_allowed_bonus_def py_round1_def
        round_half_even_def)

text \<open>
  C7. The defense record with 3 sacks, 1 interception, 17 points allowed and 250 yards
  allowed scores 3 * 1 + 1 * 2 + 1 + 0 = 6: the band 14 to 20 of the points allowed gives 1
  and no band of the yards allowed holds 250. Each lookup adds the points of the first band,
  in the order of the table, that holds the value, and no value lies in two bands.
\<close>

theorem end_to_end_defense:
  "defense_calculate_projected_score example_defense = 3 * 1 + 1 * 2 + 1 + 0
   \<and> defense_calculate_projected_score example_defense = 6
   \<and> band_scan points_allowed_scoring 17 0 = 1
   \<and> band_scan yards_allowed_bonus 250 0 = 0
   \<and> band_scan bs x s = s + (case find (in_band x) bs of None \<Rightarrow> 0 | Some b \<Rightarrow> snd b)
   \<and> length (filter (in_band x) points_allowed_scoring) \<le> 1
   \<and> length (filter (in_band x) yards_allowed_bonus) \<le> 1"
proof -
  have "band_scan points_allowed_scoring 17 0 = 1"
    by (simp add: points_allowed_scoring_def)
  moreover have "band_scan yards_allowed_bonus 250 0 = 0"
    by (simp add: yards_allowed_bonus_def)
  ultimately show ?thesis
    using band_scan_find [of bs x s] points_allowed_one_band [of x] yards_allowed_one_band [of x]
    by (simp add: example_defense_score)
qed

section \<open>Expected bonuses from the pattern tables\<close>

text \<open>No piece of \<open>str.split()\<close> is empty, so \<open>parts[0][0]\<close> exists once \<open>parts[0]\<close> does.\<close>

lemma split_ws_pieces: "[] \<notin> set (split_ws s cur)"
  by (induction s arbitrary: cur) auto

lemma short_name_cases:
  "short_name name =
     (case py_split name of
        p0 # p1 # _ \<Rightarrow> Inr (hd p0 # ''.'' @ p1)
      | _ \<Rightarrow> Inl IndexError)"
proof -
  have "[] \<notin> set (py_split name)"
    by (simp add: py_split_def split_ws_pieces)
  then show ?thesis
    by (auto simp: short_name_def split: list.splits)
qed

text \<open>The lookup raises exactly on the names with a space and fewer than two pieces.\<close>

lemma get_player_td_bonus_raises_iff:
  "(\<exists>e. get_player_td_bonus tbl name tds = Inl e)
   \<longleftrightarrow> CHR '' '' \<in> set name \<and> length (py_split name) < 2"
  by (auto simp: get_player_td_bonus_def short_name_cases
           split: list.splits option.splits sum.splits)

text \<open>A name with no space never reaches a table.\<close>

lemma no_space_td_bonus:
  "CHR '' '' \<notin> set name \<Longrightarrow>
   get_player_td_bonus tbl name tds = Inr (league_average_td_bonus tds)"
  by (simp add: get_player_td_bonus_def)

lemma no_space_kicker_points:
  "CHR '' '' \<notin> set name \<Longrightarrow>
   get_kicker_points tbl name fgs pats = Inr (py_round1 (pats * 1 + fgs * (33 / 10)))"
  by (simp add: get_kicker_points_def Let_def)

text \<open>A short name that the table lacks gets the league-average bonus.\<close>

lemma td_bonus_fallback:
  "short_name name = Inr sn \<Longrightarrow> tbl sn = None \<Longrightarrow>
   get_player_td_bonus tbl name tds = Inr (league_average_td_bonus tds)"
  by (simp add: get_player_td_bonus_def)

text \<open>A scorer with fewer than 3 touchdowns gets no entry in the table.\<close>

lemma fold_analyze_player_none:
  "length (filter (\<lambda>p. td_player_name p = Some player) tdp) < 3 \<Longrightarrow> tbl player = None \<Longrightarrow>
   fold (analyze_player tdp) ps tbl player = None"
proof (induction ps arbitrary: tbl)
  case Nil
  then show ?case by simp
next
  case (Cons q ps)
  have "analyze_player tdp q tbl player = None"
    using Cons.prems by (auto simp: analyze_player_def Let_def)
  then show ?case using Cons by simp
qed

lemma analyze_td_patterns_excludes:
  "length (filter (\<lambda>p. td_player_name p = Some player) (td_players pbp)) < 3 \<Longrightarrow>
   analyze_td_patterns pbp Map.empty player = None"
  by (simp add: analyze_td_patterns_def Let_def fold_analyze_player_none)



lemma short_name_example: "short_name ''Chase McLaughlin'' = Inr ''C.McLaughlin''"
  by (simp add: short_name_def py_split_def is_space_def)

text \<open>The stand-alone analyzer applies the fallback band distribution: 3.2 points a goal.\<close>

lemma fg_distribution_fallback:
  "get_kicker_fg_distribution Map.empty name fgs = py_round1 (fgs * (32 / 10))"
  by (simp add: get_kicker_fg_distribution_def fg_distribution_def Let_def algebra_simps)

lemma kicker_scorer_total_fg:
  "kicker_calculate_projected_score [''fg'' \<mapsto> fgs] = py_round1 (fgs * (32 / 10))"
  by (simp add: kicker_calculate_projected_score_def add_if_present_def)

text \<open>
  C6. For a kicker who is not in the field-goal table, 2 projected field goals and 3
  projected extra points, \<open>get_kicker_points\<close> returns 3 + 2 * 3.3 = 9.6, where the fallback
  band distribution gives 3 + 2 * 3.2 = 9.4.
\<close>

theorem get_kicker_points_fallback_rate:
  "get_kicker_points Map.empty ''Chase McLaughlin'' 2 3 = Inr (96 / 10)
   \<and> py_round1 (3 * 1 + 2 * (32 / 10)) = 94 / 10"
  by (simp add: get_kicker_points_def short_name_example Let_def py_round1_def
        round_half_even_def)

text \<open>
  C10. For a name with no space the two lookups return the fallback value, the
  league-average touchdown bonus and the extra points plus 3.3 points a field goal,
  whatever the tables hold.
\<close>

theorem no_space_name_gets_fallback:
  "CHR '' '' \<notin> set name \<Longrightarrow>
   get_player_td_bonus td_patterns name tds = Inr (league_average_td_bonus tds)
   \<and> get_kicker_points fg_patterns name fgs pats
       = Inr (py_round1 (pats * 1 + fgs * (33 / 10)))"
  by (simp add: no_space_td_bonus no_space_kicker_points)

theorem no_space_name_gets_fallback_witness:
  "CHR '' '' \<notin> set ''S.Barkley''
   \<and> example_td_patterns ''S.Barkley'' \<noteq> None
   \<and> get_player_td_bonus example_td_patterns ''S.Barkley'' 1 = Inr (3 / 10)
   \<and> CHR '' '' \<notin> set ''Philadelphia''
   \<and> example_fg_patterns ''Philadelphia'' \<noteq> None
   \<and> get_kicker_points example_fg_patterns ''Philadelphia'' 2 0 = Inr (66 / 10)"
proof -
  have h: "CHR '' '' \<notin> set ''S.Barkley''" by simp
  have h': "CHR '' '' \<notin> set ''Philadelphia''" by simp
  have l: "league_average_td_bonus 1 = 3 / 10"
    by (simp add: league_average_td_bonus_def py_round1_def round_half_even_def Let_def)
  have k: "py_round1 (0 * 1 + 2 * (33 / 10)) = 66 / 10"
    by (simp add: py_round1_def round_half_even_def Let_def)
  show ?thesis
    using no_space_name_gets_fallback [OF h, of example_td_patterns 1 example_fg_patterns 2 0]
      no_space_name_gets_fallback [OF h', of example_td_patterns 1 example_fg_patterns 2 0]
      h h' l k
    by (simp add: example_td_patterns_def example_fg_patterns_def)
qed

section \<open>Return points of a defense\<close>

text \<open>
  C8, as stated, at the example defense against DET: the step publishes 6 + 6.2 = 12.2,
  where the return yards allowed by the opponent, 80, would give 6 + 8 = 14.
\<close>

theorem return_points_ignore_opponent:
  "projected_points (project_defense example_return_analyzer example_defense)
   \<noteq> py_round1 (defense_calculate_projected_score example_defense
                 + get_expected_return_yards example_return_analyzer ''DET'' / 10)"
  by (simp add: project_defense_def example_return_analyzer_def loaded_return_analyzer_def
        get_expected_return_yards_def example_defense_score py_round1_def
        round_half_even_def Let_def)

text \<open>
  C8, amended. For every defense projection the published total is the base defense score
  plus the return points, rounded to one decimal place, where the return points are the
  league average of 62.5 return yards divided by 10 and rounded to one decimal place, 6.2,
  whatever the table of return yards allowed holds.
\<close>

theorem defense_projection_uses_league_average:
  "project_defense (loaded_return_analyzer allowed) proj =
     \<lparr>projected_points = py_round1 (defense_calculate_projected_score proj + 62 / 10),
      expected_return_yards = 625 / 10,
      return_points = 62 / 10\<rparr>"
  by (simp add: project_defense_def loaded_return_analyzer_def py_round1_def
        round_half_even_def Let_def)

section \<open>Confidence intervals\<close>












end
